theory Spec2Isabelle
  imports Complex_Main "HOL-Library.Sublist"
begin

section \<open>Values, messages and exceptions\<close>

text \<open>
  The service of \<^verbatim>\<open>app.py\<close> handles JSON: request bodies, the payload it submits and
  the provider's status documents. A parsed JSON document is a Python value (\<^verbatim>\<open>None\<close>,
  a bool, a number, a \<^verbatim>\<open>str\<close>, a list or a dict); the code never checks which one it
  got, so the model keeps all six. A dict is the list of its items (keys distinct).
  A \<^verbatim>\<open>str\<close> is a list of characters with code points below 256.
\<close>

datatype json =
    JNull
  | JBool bool
  | JNum real
  | JStr string
  | JArr "json list"
  | JObj "(string \<times> json) list"

text \<open>Python's truth value of a parsed JSON value (\<^verbatim>\<open>if v:\<close>, \<^verbatim>\<open>a or b\<close>, \<^verbatim>\<open>not v\<close>).\<close>

fun truthy :: "json \<Rightarrow> bool" where
  "truthy JNull = False"
| "truthy (JBool b) = b"
| "truthy (JNum x) = (x \<noteq> 0)"
| "truthy (JStr s) = (s \<noteq> [])"
| "truthy (JArr xs) = (xs \<noteq> [])"
| "truthy (JObj kvs) = (kvs \<noteq> [])"

text \<open>\<^verbatim>\<open>d.get(k)\<close> and \<^verbatim>\<open>d.get(k, default)\<close> on a dict: a missing key gives the default.\<close>

definition dict_get :: "(string \<times> json) list \<Rightarrow> string \<Rightarrow> json \<Rightarrow> json" where
  "dict_get kvs k dflt = (case map_of kvs k of None \<Rightarrow> dflt | Some v \<Rightarrow> v)"

text \<open>
  \<^verbatim>\<open>v in xs\<close> for a list \<^verbatim>\<open>xs\<close> of strings compares with \<^verbatim>\<open>==\<close>: only an equal
  \<^verbatim>\<open>str\<close> is a member. \<^verbatim>\<open>v in d\<close> for a dict hashes \<^verbatim>\<open>v\<close> first: a list or a
  dict is unhashable and the test raises \<^verbatim>\<open>TypeError\<close>.
\<close>

fun in_strs :: "json \<Rightarrow> string list \<Rightarrow> bool" where
  "in_strs (JStr s) xs = (s \<in> set xs)"
| "in_strs v xs = False"

fun hashable :: "json \<Rightarrow> bool" where
  "hashable (JArr xs) = False"
| "hashable (JObj kvs) = False"
| "hashable v = True"

text \<open>
  \<^verbatim>\<open>str.strip()\<close> removes the characters for which \<^verbatim>\<open>str.isspace()\<close> holds from both
  ends; among the code points below 256 these are 9 to 13, 28 to 32, 133 and 160.
\<close>

definition isspace :: "char \<Rightarrow> bool" where
  "isspace c =
     (let n = (of_char c :: nat)
      in (9 \<le> n \<and> n \<le> 13) \<or> (28 \<le> n \<and> n \<le> 32) \<or> n = 133 \<or> n = 160)"

definition strip :: "string \<Rightarrow> string" where
  "strip s = rev (dropWhile isspace (rev (dropWhile isspace s)))"

text \<open>
  The exceptions that can reach the handler's \<^verbatim>\<open>except\<close> clauses. The code raises
  \<^verbatim>\<open>RuntimeError\<close> and \<^verbatim>\<open>TimeoutError\<close> itself; every other exception comes from
  the interpreter or a library and is neither of the two:
  \<^verbatim>\<open>requests.HTTPError\<close> (from \<^verbatim>\<open>raise_for_status\<close>, an \<^verbatim>\<open>OSError\<close>),
  other \<^verbatim>\<open>requests\<close> exceptions, \<^verbatim>\<open>cloudinary.exceptions.Error\<close>,
  \<^verbatim>\<open>AttributeError\<close>, \<^verbatim>\<open>TypeError\<close>, \<^verbatim>\<open>KeyError\<close>, \<^verbatim>\<open>ValueError\<close>,
  \<^verbatim>\<open>FileNotFoundError\<close>.
\<close>

datatype other_exn =
    HTTPError nat
  | RequestException string
  | JSONDecodeError
  | CloudinaryError nat string
  | AttributeError
  | TypeError
  | KeyError string
  | ValueError
  | FileNotFoundError string

text \<open>
  An error message is an f-string: literal text and formatted values, in order.
  \<open>Fmt v\<close> is \<^verbatim>\<open>{v}\<close> for a value that came out of JSON, \<open>FmtInt\<close> for an \<^verbatim>\<open>int\<close>,
  \<open>FmtStrs\<close> for a list of strings, \<open>FmtDumps v\<close> is \<^verbatim>\<open>json.dumps(v, indent=2)\<close>
  and \<open>FmtExn e\<close> is \<^verbatim>\<open>{e}\<close> for an exception of a library.
\<close>

datatype piece =
    Lit string
  | Fmt json
  | FmtInt int
  | FmtStrs "string list"
  | FmtDumps json
  | FmtExn other_exn

type_synonym message = "piece list"

datatype exn =
    RuntimeError message
  | TimeoutError message
  | OtherError other_exn

datatype 'a res = Return 'a | Raise exn

text \<open>
  The text of a message, where Python's formatting is simple enough to be written out:
  literal text, a \<^verbatim>\<open>str\<close> (formatted as itself) and an \<^verbatim>\<open>int\<close> (in decimal).
  For the other pieces (\<^verbatim>\<open>repr\<close> of containers, \<^verbatim>\<open>json.dumps\<close>, the text of a
  library's exception) the rendering is not modelled and \<open>render\<close> gives \<open>None\<close>.
\<close>

definition digit_char :: "nat \<Rightarrow> char" where
  "digit_char d = ''0123456789'' ! d"

fun decimal :: "nat \<Rightarrow> string" where
  "decimal n = (if n < 10 then [digit_char n] else decimal (n div 10) @ [digit_char (n mod 10)])"

definition str_int :: "int \<Rightarrow> string" where
  "str_int i = (if i < 0 then CHR ''-'' # decimal (nat (- i)) else decimal (nat i))"

fun render_piece :: "piece \<Rightarrow> string option" where
  "render_piece (Lit s) = Some s"
| "render_piece (Fmt (JStr s)) = Some s"
| "render_piece (FmtInt i) = Some (str_int i)"
| "render_piece p = None"

fun render :: "message \<Rightarrow> string option" where
  "render [] = Some []"
| "render (p # ps) =
     (case render_piece p of
        None \<Rightarrow> None
      | Some s \<Rightarrow> (case render ps of None \<Rightarrow> None | Some t \<Rightarrow> Some (s @ t)))"

section \<open>Configuration and catalog\<close>

text \<open>
  The module's configuration comes from the process environment; the module refuses to
  load when one of the variables is missing or empty.
\<close>

record config =
  API_KEY :: string
  SPEECH_KEY :: string
  AVATAR_ENDPOINT :: string

definition API_VERSION :: string where
  "API_VERSION = ''2024-08-01''"

definition AVATARS :: "(string \<times> string list) list" where
  "AVATARS =
     [(''harry'', [''business'', ''casual'', ''youthful'']),
      (''jeff'', [''business'', ''formal'']),
      (''lisa'', [''casual-sitting'', ''graceful-sitting'', ''graceful-standing'',
                  ''technical-sitting'', ''technical-standing'']),
      (''lori'', [''casual'', ''graceful'', ''formal'']),
      (''max'', [''business'', ''casual'', ''formal'']),
      (''meg'', [''formal'', ''casual'', ''business''])]"

definition VOICES :: "(string \<times> string list) list" where
  "VOICES =
     [(''female'', [''th-TH-PremwadeeNeural'', ''th-TH-AcharaNeural'']),
      (''male'', [''th-TH-NiwatNeural''])]"

definition ALL_VOICES :: "string list" where
  "ALL_VOICES = concat (map snd VOICES)"

section \<open>The world outside the process\<close>

text \<open>
  Everything the handler does to the outside is recorded: the calls it makes, in order
  and with the clock reading at which each was started, and the temporary files that
  exist. The clock is \<^verbatim>\<open>time.time()\<close>, in seconds, as an exact number.
\<close>

datatype event =
    Put string "(string \<times> string) list" json
  | Get string "(string \<times> string) list"
  | Sleep int
  | Download json
  | Upload string "(string \<times> string) list"
  | Unlink string

record world =
  clock :: real
  trace :: "(real \<times> event) list"
  files :: "string \<rightharpoonup> string"

definition emit :: "event \<Rightarrow> world \<Rightarrow> world" where
  "emit e w = w\<lparr>trace := trace w @ [(clock w, e)]\<rparr>"


text \<open>
  What the outside answers. A call of \<^verbatim>\<open>requests\<close> either raises (no connection, a
  bad URL), or returns a response with a status code. \<open>put_text\<close> is \<^verbatim>\<open>resp.text\<close>;
  \<open>poll_json\<close> is what \<^verbatim>\<open>resp.json()\<close> gives, \<open>None\<close> when the body is not JSON;
  \<open>poll_took\<close> is the time that passes in one round of the polling loop apart from the
  sleep it asks for. A download delivers chunks and may break off after them. The upload
  is Cloudinary's SDK: it returns the result dict, or raises
  \<^verbatim>\<open>cloudinary.exceptions.Error\<close> for the HTTP status the service answered.
\<close>

datatype 'a net = Unreachable string | Reply 'a

record put_reply =
  put_status :: nat
  put_text :: string

record poll_reply =
  poll_status :: nat
  poll_json :: "json option"
  poll_took :: real

record download_reply =
  dl_status :: nat
  dl_chunks :: "string list"
  dl_broken :: "string option"

datatype upload_reply = Uploaded "(string \<times> json) list" | Rejected nat string

record env =
  new_uuid :: string
  put_answer :: "put_reply net"
  poll_script :: "poll_reply net list"
  download_answer :: "download_reply net"
  tmp_name :: string
  upload_answer :: upload_reply

text \<open>\<^verbatim>\<open>resp.raise_for_status()\<close> raises for the status codes 400 to 599.\<close>

definition raise_for_status :: "nat \<Rightarrow> unit res" where
  "raise_for_status code =
     (if 400 \<le> code \<and> code < 600 then Raise (OtherError (HTTPError code)) else Return ())"

section \<open>Job submission\<close>

definition azure_headers :: "config \<Rightarrow> (string \<times> string) list" where
  "azure_headers cfg =
     [(''Ocp-Apim-Subscription-Key'', SPEECH_KEY cfg),
      (''Content-Type'', ''application/json'')]"

definition job_url :: "config \<Rightarrow> string \<Rightarrow> string" where
  "job_url cfg job_id =
     AVATAR_ENDPOINT cfg @ ''/avatar/batchsyntheses/'' @ job_id @ ''?api-version='' @ API_VERSION"

definition avatar_config :: "json \<Rightarrow> json \<Rightarrow> json \<Rightarrow> (string \<times> json) list" where
  "avatar_config character style background =
     [(''talkingAvatarCharacter'', character),
      (''talkingAvatarStyle'', style),
      (''customized'', JBool False),
      (''videoFormat'', JStr ''mp4''),
      (''videoCodec'', JStr ''h264''),
      (''subtitleType'', JStr ''soft_embedded''),
      (''useBuiltInVoice'', JBool False)]
     @ (if truthy background then [(''backgroundImage'', background)]
        else [(''backgroundColor'', JStr ''#FFFFFFFF'')])"

definition job_payload :: "string \<Rightarrow> json \<Rightarrow> json \<Rightarrow> json \<Rightarrow> json \<Rightarrow> json" where
  "job_payload txt voice character style background =
     JObj [(''inputKind'', JStr ''PlainText''),
           (''synthesisConfig'', JObj [(''voice'', voice)]),
           (''customVoices'', JObj []),
           (''inputs'', JArr [JObj [(''content'', JStr txt)]]),
           (''avatarConfig'', JObj (avatar_config character style background))]"

definition create_avatar_job ::
  "config \<Rightarrow> env \<Rightarrow> string \<Rightarrow> json \<Rightarrow> json \<Rightarrow> json \<Rightarrow> json \<Rightarrow> world \<Rightarrow> string res \<times> world" where
  "create_avatar_job cfg ev txt voice character style background w =
     (let job_id = new_uuid ev;
          url = job_url cfg job_id;
          payload = job_payload txt voice character style background;
          w1 = emit (Put url (azure_headers cfg) payload) w
      in case put_answer ev of
           Unreachable m \<Rightarrow> (Raise (OtherError (RequestException m)), w1)
         | Reply resp \<Rightarrow>
             if put_status resp \<ge> 400
             then (Raise (RuntimeError
                     [Lit ''Azure job creation failed ['', FmtInt (int (put_status resp)),
                      Lit '']: '', Lit (put_text resp)]), w1)
             else (Return job_id, w1))"

section \<open>Polling\<close>

text \<open>
  What the loop of \<open>poll_avatar_job\<close> does with one parsed status document: \<open>None\<close>
  when the job is not finished (the loop sleeps and asks again), otherwise the value
  returned or the exception raised. \<^verbatim>\<open>data.get\<close> exists on a dict only, so a
  document that is not an object, or whose \<^verbatim>\<open>outputs\<close> is present and not an
  object, raises \<^verbatim>\<open>AttributeError\<close>.
\<close>

definition poll_response :: "json \<Rightarrow> json res option" where
  "poll_response data =
     (case data of
        JObj kvs \<Rightarrow>
          (let status = dict_get kvs ''status'' JNull
           in if status = JStr ''Succeeded'' then
                (case dict_get kvs ''outputs'' (JObj []) of
                   JObj outs \<Rightarrow>
                     (let video_url = dict_get outs ''result'' JNull
                      in if \<not> truthy video_url
                         then Some (Raise (RuntimeError
                                [Lit ''Job succeeded but no result URL found'']))
                         else Some (Return video_url))
                 | _ \<Rightarrow> Some (Raise (OtherError AttributeError)))
              else if status = JStr ''Failed'' then
                Some (Raise (RuntimeError [Lit ''Avatar job failed: '', FmtDumps data]))
              else None)
      | _ \<Rightarrow> Some (Raise (OtherError AttributeError)))"

text \<open>\<^verbatim>\<open>time.sleep(secs)\<close>: a negative argument raises \<^verbatim>\<open>ValueError\<close>.\<close>

definition sleep :: "int \<Rightarrow> world \<Rightarrow> unit res \<times> world" where
  "sleep secs w =
     (if secs < 0 then (Raise (OtherError ValueError), w)
      else (Return (), (emit (Sleep secs) w)\<lparr>clock := clock w + of_int secs\<rparr>))"

text \<open>
  The \<^verbatim>\<open>while\<close> loop of \<open>poll_avatar_job\<close>. The provider's answers are a script, one
  entry for each status query; the result is \<open>None\<close> when the loop asks for more
  answers than the script holds.
\<close>

fun poll_loop ::
  "string \<Rightarrow> (string \<times> string) list \<Rightarrow> string \<Rightarrow> int \<Rightarrow> int \<Rightarrow> real
     \<Rightarrow> poll_reply net list \<Rightarrow> world \<Rightarrow> json res option \<times> world" where
  "poll_loop url headers job_id timeout interval deadline [] w =
     (if clock w < deadline then (None, w)
      else (Some (Raise (TimeoutError
              [Lit ''Avatar job '', Lit job_id, Lit '' did not finish within '',
               FmtInt timeout, Lit ''s''])), w))"
| "poll_loop url headers job_id timeout interval deadline (step # rest) w =
     (if clock w < deadline then
        (case step of
           Unreachable m \<Rightarrow>
             (Some (Raise (OtherError (RequestException m))), emit (Get url headers) w)
         | Reply resp \<Rightarrow>
             (let w1 = (emit (Get url headers) w)\<lparr>clock := clock w + poll_took resp\<rparr>
              in case raise_for_status (poll_status resp) of
                   Raise e \<Rightarrow> (Some (Raise e), w1)
                 | Return u \<Rightarrow>
                     (case poll_json resp of
                        None \<Rightarrow> (Some (Raise (OtherError JSONDecodeError)), w1)
                      | Some data \<Rightarrow>
                          (case poll_response data of
                             Some r \<Rightarrow> (Some r, w1)
                           | None \<Rightarrow>
                               (case sleep interval w1 of
                                  (Raise e, w2) \<Rightarrow> (Some (Raise e), w2)
                                | (Return u, w2) \<Rightarrow>
                                    poll_loop url headers job_id timeout interval
                                      deadline rest w2)))))
      else (Some (Raise (TimeoutError
              [Lit ''Avatar job '', Lit job_id, Lit '' did not finish within '',
               FmtInt timeout, Lit ''s''])), w))"

definition poll_headers :: "config \<Rightarrow> (string \<times> string) list" where
  "poll_headers cfg = [(''Ocp-Apim-Subscription-Key'', SPEECH_KEY cfg)]"

definition poll_avatar_job ::
  "config \<Rightarrow> env \<Rightarrow> string \<Rightarrow> int \<Rightarrow> int \<Rightarrow> world \<Rightarrow> json res option \<times> world" where
  "poll_avatar_job cfg ev job_id timeout interval w =
     (let url = job_url cfg job_id;
          headers = poll_headers cfg;
          deadline = clock w + of_int timeout
      in poll_loop url headers job_id timeout interval deadline (poll_script ev) w)"

section \<open>Download, upload, cleanup\<close>

text \<open>
  \<open>download_file\<close> creates the temporary file after the status check and writes the
  chunks into it; the file's name ends in \<^verbatim>\<open>.mp4\<close>.
\<close>

definition download_file :: "env \<Rightarrow> json \<Rightarrow> world \<Rightarrow> string res \<times> world" where
  "download_file ev url w =
     (let w1 = emit (Download url) w
      in case download_answer ev of
           Unreachable m \<Rightarrow> (Raise (OtherError (RequestException m)), w1)
         | Reply resp \<Rightarrow>
             (case raise_for_status (dl_status resp) of
                Raise e \<Rightarrow> (Raise e, w1)
              | Return u \<Rightarrow>
                  (let name = tmp_name ev @ ''.mp4'';
                       w2 = w1\<lparr>files := (files w1)(name \<mapsto> concat (dl_chunks resp))\<rparr>
                   in case dl_broken resp of
                        Some m \<Rightarrow> (Raise (OtherError (RequestException m)), w2)
                      | None \<Rightarrow> (Return name, w2))))"

definition upload_options :: "(string \<times> string) list" where
  "upload_options =
     [(''resource_type'', ''video''), (''folder'', ''avatar_videos''),
      (''type'', ''authenticated'')]"

definition upload_to_cloudinary :: "env \<Rightarrow> string \<Rightarrow> world \<Rightarrow> json res \<times> world" where
  "upload_to_cloudinary ev file_path w =
     (let w1 = emit (Upload file_path upload_options) w
      in case upload_answer ev of
           Rejected code m \<Rightarrow> (Raise (OtherError (CloudinaryError code m)), w1)
         | Uploaded result \<Rightarrow>
             (case map_of result ''secure_url'' of
                None \<Rightarrow> (Raise (OtherError (KeyError ''secure_url'')), w1)
              | Some u \<Rightarrow> (Return u, w1)))"

text \<open>\<^verbatim>\<open>os.unlink(path)\<close>.\<close>

definition unlink :: "string \<Rightarrow> world \<Rightarrow> unit res \<times> world" where
  "unlink path w =
     (case files w path of
        None \<Rightarrow> (Raise (OtherError (FileNotFoundError path)), w)
      | Some c \<Rightarrow> (Return (), (emit (Unlink path) w)\<lparr>files := (files w)(path := None)\<rparr>))"

section \<open>The route \<^verbatim>\<open>POST /generate-avatar\<close>\<close>

text \<open>
  A request, as the handler reads it: the \<^verbatim>\<open>X-API-Key\<close> header, and the body as
  Flask parses it. \<^verbatim>\<open>request.json\<close> aborts the request when the body is not JSON:
  with status 415 when the content type is not JSON (current Flask; 400 in Flask 2.1
  and 2.2), with status 400 when the content type is JSON and the text does not parse.
  \<^verbatim>\<open>request.get_json(silent=True)\<close> gives \<^verbatim>\<open>None\<close> in both cases.
  A response is a status code and a body: the handler's JSON error or success document,
  or the framework's own error page. An exception that leaves the handler is answered
  by Flask with status 500.
\<close>

datatype body = NotJson | Malformed | Parsed json

record request =
  api_key_header :: "string option"
  req_body :: body

datatype resp_body =
    ErrorBody message
  | SuccessBody json string
  | FrameworkError

record response =
  status :: nat
  payload :: resp_body

definition aborted :: "nat \<Rightarrow> response" where
  "aborted code = \<lparr>status = code, payload = FrameworkError\<rparr>"

definition error_response :: "nat \<Rightarrow> message \<Rightarrow> response" where
  "error_response code msg = \<lparr>status = code, payload = ErrorBody msg\<rparr>"

definition request_json :: "request \<Rightarrow> response + json" where
  "request_json req =
     (case req_body req of
        NotJson \<Rightarrow> Inl (aborted 415)
      | Malformed \<Rightarrow> Inl (aborted 400)
      | Parsed j \<Rightarrow> Inr j)"

definition get_json_silent :: "request \<Rightarrow> json" where
  "get_json_silent req =
     (case req_body req of NotJson \<Rightarrow> JNull | Malformed \<Rightarrow> JNull | Parsed j \<Rightarrow> j)"

text \<open>
  \<^verbatim>\<open>request.headers.get("X-API-Key") or request.json.get("key")\<close>: the body is read
  only when the header is missing or empty.
\<close>

definition body_key :: "request \<Rightarrow> response + json" where
  "body_key req =
     (case request_json req of
        Inl r \<Rightarrow> Inl r
      | Inr (JObj kvs) \<Rightarrow> Inr (dict_get kvs ''key'' JNull)
      | Inr _ \<Rightarrow> Inl (aborted 500))"

definition provided_key :: "request \<Rightarrow> response + json" where
  "provided_key req =
     (case api_key_header req of
        None \<Rightarrow> body_key req
      | Some h \<Rightarrow> if h \<noteq> [] then Inr (JStr h) else body_key req)"

definition authenticated :: "config \<Rightarrow> request \<Rightarrow> bool" where
  "authenticated cfg req = (provided_key req = Inr (JStr (API_KEY cfg)))"

definition quote :: string where
  "quote = [CHR 0x27]"

definition lookup_styles :: "json \<Rightarrow> string list option" where
  "lookup_styles character = (case character of JStr c \<Rightarrow> map_of AVATARS c | _ \<Rightarrow> None)"

text \<open>
  The validation block of the handler: a response when a check fails or an exception
  leaves the handler, otherwise the five values the job is submitted with (text, voice,
  character, style, background). \<open>request_data\<close> is
  \<^verbatim>\<open>request.get_json(silent=True) or {}\<close>.
\<close>

definition request_data :: "request \<Rightarrow> json" where
  "request_data req = (let j = get_json_silent req in if truthy j then j else JObj [])"

definition validate_input :: "request \<Rightarrow> response + (string \<times> json \<times> json \<times> json \<times> json)" where
  "validate_input req =
     (let data = request_data req
      in case data of
           JObj kvs \<Rightarrow>
             (case dict_get kvs ''text'' (JStr []) of
                JStr t \<Rightarrow>
                  (let txt = strip t
                   in if txt = [] then Inl (error_response 400 [Lit ''Missing 'text' field''])
                      else
                        (let voice = dict_get kvs ''voice'' (JStr ''th-TH-NiwatNeural'');
                             character = dict_get kvs ''talkingAvatarCharacter'' (JStr ''harry'');
                             style = dict_get kvs ''talkingAvatarStyle'' (JStr ''casual'');
                             background = dict_get kvs ''background'' JNull
                         in if \<not> in_strs voice ALL_VOICES then
                              Inl (error_response 400
                                [Lit ''Invalid voice '', Lit quote, Fmt voice, Lit quote,
                                 Lit ''. See GET /voices for options.''])
                            else if \<not> hashable character then Inl (aborted 500)
                            else
                              (case lookup_styles character of
                                 None \<Rightarrow>
                                   Inl (error_response 400
                                     [Lit ''Invalid character '', Lit quote, Fmt character,
                                      Lit quote, Lit ''. See GET /models for options.''])
                               | Some styles \<Rightarrow>
                                   if \<not> in_strs style styles then
                                     Inl (error_response 400
                                       [Lit ''Invalid style '', Lit quote, Fmt style, Lit quote,
                                        Lit '' for character '', Lit quote, Fmt character,
                                        Lit quote, Lit ''. Valid: '', FmtStrs styles])
                                   else Inr (txt, voice, character, style, background))))
              | _ \<Rightarrow> Inl (aborted 500))
         | _ \<Rightarrow> Inl (aborted 500))"

text \<open>The body of the \<^verbatim>\<open>try\<close> block: submit, poll, download, upload, clean up.\<close>

definition generate_avatar_try ::
  "config \<Rightarrow> env \<Rightarrow> string \<Rightarrow> json \<Rightarrow> json \<Rightarrow> json \<Rightarrow> json \<Rightarrow> world
     \<Rightarrow> (json \<times> string) res option \<times> world" where
  "generate_avatar_try cfg ev txt voice character style background w =
     (case create_avatar_job cfg ev txt voice character style background w of
        (Raise e, w1) \<Rightarrow> (Some (Raise e), w1)
      | (Return job_id, w1) \<Rightarrow>
          (case poll_avatar_job cfg ev job_id 600 5 w1 of
             (None, w2) \<Rightarrow> (None, w2)
           | (Some (Raise e), w2) \<Rightarrow> (Some (Raise e), w2)
           | (Some (Return video_url), w2) \<Rightarrow>
               (case download_file ev video_url w2 of
                  (Raise e, w3) \<Rightarrow> (Some (Raise e), w3)
                | (Return local_path, w3) \<Rightarrow>
                    (case upload_to_cloudinary ev local_path w3 of
                       (Raise e, w4) \<Rightarrow> (Some (Raise e), w4)
                     | (Return cloudinary_url, w4) \<Rightarrow>
                         (case unlink local_path w4 of
                            (Raise e, w5) \<Rightarrow> (Some (Raise e), w5)
                          | (Return u, w5) \<Rightarrow>
                              (Some (Return (cloudinary_url, job_id)), w5))))))"

text \<open>The \<^verbatim>\<open>except\<close> clauses, in the order of the source.\<close>

fun handle_exn :: "exn \<Rightarrow> response" where
  "handle_exn (TimeoutError m) = error_response 504 m"
| "handle_exn (RuntimeError m) = error_response 502 m"
| "handle_exn (OtherError e) = error_response 500 [Lit ''Unexpected error: '', FmtExn e]"

definition generate_avatar ::
  "config \<Rightarrow> env \<Rightarrow> request \<Rightarrow> world \<Rightarrow> response option \<times> world" where
  "generate_avatar cfg ev req w =
     (case provided_key req of
        Inl r \<Rightarrow> (Some r, w)
      | Inr k \<Rightarrow>
          if k \<noteq> JStr (API_KEY cfg)
          then (Some (error_response 401 [Lit ''Invalid or missing API key'']), w)
          else
            (case validate_input req of
               Inl r \<Rightarrow> (Some r, w)
             | Inr (txt, voice, character, style, background) \<Rightarrow>
                 (case generate_avatar_try cfg ev txt voice character style background w of
                    (None, w1) \<Rightarrow> (None, w1)
                  | (Some (Raise e), w1) \<Rightarrow> (Some (handle_exn e), w1)
                  | (Some (Return (video_url, job_id)), w1) \<Rightarrow>
                      (Some \<lparr>status = 200, payload = SuccessBody video_url job_id\<rparr>, w1))))"

section \<open>Notions used in the statements\<close>

text \<open>
  A status document reports an unfinished job when it is an object whose
  \<^verbatim>\<open>status\<close> is neither \<^verbatim>\<open>Succeeded\<close> nor \<^verbatim>\<open>Failed\<close>; an answer of the
  provider is a pending one when its HTTP status is no error, its body is such a
  document and the time it takes is not negative.
\<close>

definition unfinished :: "json \<Rightarrow> bool" where
  "unfinished data =
     (case data of
        JObj kvs \<Rightarrow>
          dict_get kvs ''status'' JNull \<noteq> JStr ''Succeeded''
          \<and> dict_get kvs ''status'' JNull \<noteq> JStr ''Failed''
      | _ \<Rightarrow> False)"

definition http_ok :: "nat \<Rightarrow> bool" where
  "http_ok code = (code < 400 \<or> 600 \<le> code)"

fun answers_pending :: "poll_reply net \<Rightarrow> bool" where
  "answers_pending (Unreachable m) = False"
| "answers_pending (Reply r) =
     (http_ok (poll_status r) \<and> 0 \<le> poll_took r
      \<and> (case poll_json r of None \<Rightarrow> False | Some data \<Rightarrow> unfinished data))"

fun took_of :: "poll_reply net \<Rightarrow> real" where
  "took_of (Unreachable m) = 0"
| "took_of (Reply r) = poll_took r"

text \<open>
  The calls of a polling run that starts at time \<open>t\<close> and meets the given round times
  before the last query: a query, a sleep of \<open>interval\<close> seconds after its answer, the
  next query when the sleep is over.
\<close>

fun expected_trace ::
  "string \<Rightarrow> (string \<times> string) list \<Rightarrow> int \<Rightarrow> real \<Rightarrow> real list \<Rightarrow> (real \<times> event) list" where
  "expected_trace url headers interval t [] = [(t, Get url headers)]"
| "expected_trace url headers interval t (d # ds) =
     (t, Get url headers) # (t + d, Sleep interval)
       # expected_trace url headers interval (t + d + of_int interval) ds"

section \<open>Sample inputs\<close>

definition cfg0 :: config where
  "cfg0 = \<lparr>API_KEY = ''secret'', SPEECH_KEY = ''speech'',
            AVATAR_ENDPOINT = ''https://avatar.example''\<rparr>"

definition w0 :: world where
  "w0 = \<lparr>clock = 0, trace = [], files = Map.empty\<rparr>"

definition doc_running :: json where
  "doc_running = JObj [(''status'', JStr ''Running'')]"

definition doc_succeeded :: json where
  "doc_succeeded =
     JObj [(''status'', JStr ''Succeeded''),
           (''outputs'', JObj [(''result'', JStr ''https://video.example/v.mp4'')])]"

definition reply_running :: "poll_reply net" where
  "reply_running = Reply \<lparr>poll_status = 200, poll_json = Some doc_running, poll_took = 1\<rparr>"

definition reply_succeeded :: "poll_reply net" where
  "reply_succeeded = Reply \<lparr>poll_status = 200, poll_json = Some doc_succeeded, poll_took = 1\<rparr>"

definition env_ok :: env where
  "env_ok =
     \<lparr>new_uuid = ''job-1'',
      put_answer = Reply \<lparr>put_status = 201, put_text = ''{}''\<rparr>,
      poll_script = [reply_running, reply_succeeded],
      download_answer =
        Reply \<lparr>dl_status = 200, dl_chunks = [''ab'', ''cd''], dl_broken = None\<rparr>,
      tmp_name = ''/tmp/tmpx'',
      upload_answer = Uploaded [(''secure_url'', JStr ''https://cdn.example/v.mp4'')]\<rparr>"


definition req_ok :: request where
  "req_ok = \<lparr>api_key_header = Some ''secret'',
              req_body = Parsed (JObj [(''text'', JStr '' hello '')])\<rparr>"




definition env_download_404 :: env where
  "env_download_404 =
     env_ok\<lparr>download_answer :=
       Reply \<lparr>dl_status = 404, dl_chunks = [], dl_broken = None\<rparr>\<rparr>"

definition env_upload_rejected :: env where
  "env_upload_rejected = env_ok\<lparr>upload_answer := Rejected 401 ''Invalid credentials''\<rparr>"

definition req_no_key_malformed :: request where
  "req_no_key_malformed = \<lparr>api_key_header = None, req_body = Malformed\<rparr>"

definition req_no_key_array :: request where
  "req_no_key_array = \<lparr>api_key_header = None, req_body = Parsed (JArr [])\<rparr>"

definition req_wrong_key :: request where
  "req_wrong_key = \<lparr>api_key_header = Some ''guess'', req_body = Malformed\<rparr>"



definition req_jeff :: request where
  "req_jeff =
     \<lparr>api_key_header = Some ''secret'',
      req_body = Parsed (JObj [(''text'', JStr ''hello''),
                               (''talkingAvatarCharacter'', JStr ''jeff'')])\<rparr>"

section \<open>Properties\<close>

subsection \<open>Auxiliary facts\<close>

lemmas sample_defs = cfg0_def w0_def doc_running_def doc_succeeded_def reply_running_def
  reply_succeeded_def env_ok_def req_ok_def

lemmas model_defs =
  generate_avatar_def provided_key_def body_key_def request_json_def validate_input_def
  request_data_def get_json_silent_def dict_get_def
  strip_def isspace_def ALL_VOICES_def VOICES_def AVATARS_def lookup_styles_def
  generate_avatar_try_def create_avatar_job_def poll_avatar_job_def poll_response_def
  sleep_def emit_def raise_for_status_def download_file_def upload_to_cloudinary_def unlink_def
  error_response_def aborted_def Let_def

lemma unfinished_poll_response: "unfinished data \<Longrightarrow> poll_response data = None"
  by (cases data) (auto simp: unfinished_def poll_response_def Let_def)

lemma http_ok_raise_for_status: "http_ok code \<Longrightarrow> raise_for_status code = Return ()"
  by (auto simp: raise_for_status_def http_ok_def)

lemma answers_pending_took: "answers_pending step \<Longrightarrow> 0 \<le> took_of step"
  by (cases step) auto

lemma poll_loop_pending_step:
  assumes "answers_pending step" "clock w < deadline" "0 \<le> interval"
  shows "poll_loop url h job timeout interval deadline (step # rest) w =
           poll_loop url h job timeout interval deadline rest
             \<lparr>clock = clock w + took_of step + of_int interval,
              trace = trace w @ [(clock w, Get url h), (clock w + took_of step, Sleep interval)],
              files = files w\<rparr>"
proof (cases step)
  case (Unreachable m)
  with assms show ?thesis by simp
next
  case (Reply r)
  with assms obtain data where d: "poll_json r = Some data" "unfinished data"
    and ok: "http_ok (poll_status r)"
    by (auto split: option.splits)
  show ?thesis using assms Reply d http_ok_raise_for_status [OF ok]
    by (cases w) (simp add: unfinished_poll_response sleep_def emit_def Let_def)
qed



lemma sum_pending_nonneg:
  assumes "\<forall>s \<in> set pend. answers_pending s" "0 \<le> interval"
  shows "0 \<le> (\<Sum>s\<leftarrow>pend. took_of s + real_of_int interval)"
  using assms by (induction pend) (auto simp: answers_pending_took add_nonneg_nonneg)

lemma poll_loop_succeeds:
  assumes "\<forall>s \<in> set pend. answers_pending s" "0 \<le> interval"
    and "clock w + (\<Sum>s\<leftarrow>pend. took_of s + real_of_int interval) < deadline"
    and "http_ok (poll_status r)" "poll_json r = Some data" "poll_response data = Some x"
  shows "poll_loop url h job timeout interval deadline (pend @ Reply r # rest) w =
           (Some x,
            \<lparr>clock = clock w + (\<Sum>s\<leftarrow>pend. took_of s + real_of_int interval) + poll_took r,
             trace = trace w @ expected_trace url h interval (clock w) (map took_of pend),
             files = files w\<rparr>)"
  using assms(1,3)
proof (induction pend arbitrary: w)
  case Nil
  then show ?case
    using assms(4-6) by (simp add: http_ok_raise_for_status emit_def)
next
  case (Cons step ps)
  from Cons.prems have p: "answers_pending step" and rest: "\<forall>s \<in> set ps. answers_pending s"
    by simp_all
  have nn: "0 \<le> (\<Sum>s\<leftarrow>ps. took_of s + real_of_int interval)"
    by (rule sum_pending_nonneg [OF rest assms(2)])
  have lt: "clock w < deadline"
    using Cons.prems(2) nn answers_pending_took [OF p] assms(2) by simp
  let ?w2 = "\<lparr>clock = clock w + took_of step + of_int interval,
              trace = trace w @ [(clock w, Get url h), (clock w + took_of step, Sleep interval)],
              files = files w\<rparr>"
  have "clock ?w2 + (\<Sum>s\<leftarrow>ps. took_of s + real_of_int interval) < deadline"
    using Cons.prems(2) by (simp add: algebra_simps)
  from Cons.IH [OF rest this]
  have "poll_loop url h job timeout interval deadline (ps @ Reply r # rest) ?w2 =
          (Some x,
            \<lparr>clock = clock w + (\<Sum>s\<leftarrow>step # ps. took_of s + real_of_int interval) + poll_took r,
             trace = trace w @ expected_trace url h interval (clock w) (map took_of (step # ps)),
             files = files w\<rparr>)"
    by (simp add: algebra_simps)
  moreover have "poll_loop url h job timeout interval deadline ((step # ps) @ Reply r # rest) w =
      poll_loop url h job timeout interval deadline (ps @ Reply r # rest) ?w2"
    by (simp only: append_Cons poll_loop_pending_step [OF p lt assms(2)])
  ultimately show ?case by simp
qed


lemma generate_avatar_accepted:
  assumes "authenticated cfg req"
    and "validate_input req = Inr (txt, voice, character, style, background)"
  shows "generate_avatar cfg ev req w =
     (case generate_avatar_try cfg ev txt voice character style background w of
        (None, w1) \<Rightarrow> (None, w1)
      | (Some (Raise e), w1) \<Rightarrow> (Some (handle_exn e), w1)
      | (Some (Return (video_url, job_id)), w1) \<Rightarrow>
          (Some \<lparr>status = 200, payload = SuccessBody video_url job_id\<rparr>, w1))"
  using assms by (simp add: generate_avatar_def authenticated_def)


lemma authenticated_req_ok: "authenticated cfg0 req_ok"
  by (simp add: authenticated_def provided_key_def cfg0_def req_ok_def)

lemma validate_input_req_ok:
  "validate_input req_ok = Inr (''hello'', JStr ''th-TH-NiwatNeural'', JStr ''harry'', JStr ''casual'', JNull)"
  by (simp add: validate_input_def request_data_def get_json_silent_def req_ok_def dict_get_def
        strip_def isspace_def ALL_VOICES_def VOICES_def AVATARS_def lookup_styles_def Let_def)

lemma answers_pending_reply_running: "answers_pending reply_running"
  by (simp add: reply_running_def doc_running_def unfinished_def dict_get_def http_ok_def)


lemmas catalog_defs = ALL_VOICES_def VOICES_def AVATARS_def lookup_styles_def

lemmas request_defs = provided_key_def body_key_def request_json_def get_json_silent_def
  request_data_def dict_get_def


lemma handle_exn_status: "status (handle_exn e) \<noteq> 400"
  by (cases e) (simp_all add: error_response_def)



lemma generate_avatar_accepted_status:
  assumes "authenticated cfg req"
    and "validate_input req = Inr (a, voice, character, style, background)"
    and "fst (generate_avatar cfg ev req w) = Some resp"
  shows "status resp \<noteq> 400"
  using assms(3) handle_exn_status
  by (auto simp: generate_avatar_accepted [OF assms(1,2)]
           split: prod.splits option.splits res.splits)

lemma generate_avatar_try_download:
  assumes "create_avatar_job cfg ev a voice character style background w = (Return job_id, w1)"
    and "poll_avatar_job cfg ev job_id 600 5 w1 = (Some (Return video_url), w2)"
  shows "generate_avatar_try cfg ev a voice character style background w =
     (case download_file ev video_url w2 of
        (Raise e, w3) \<Rightarrow> (Some (Raise e), w3)
      | (Return local_path, w3) \<Rightarrow>
          (case upload_to_cloudinary ev local_path w3 of
             (Raise e, w4) \<Rightarrow> (Some (Raise e), w4)
           | (Return cloudinary_url, w4) \<Rightarrow>
               (case unlink local_path w4 of
                  (Raise e, w5) \<Rightarrow> (Some (Raise e), w5)
                | (Return u, w5) \<Rightarrow> (Some (Return (cloudinary_url, job_id)), w5))))"
  using assms by (simp add: generate_avatar_try_def)

lemma download_file_rejected:
  assumes "download_answer ev = Reply resp" "400 \<le> dl_status resp" "dl_status resp < 600"
  shows "download_file ev url w
           = (Raise (OtherError (HTTPError (dl_status resp))), emit (Download url) w)"
  using assms by (simp add: download_file_def raise_for_status_def Let_def)

lemma upload_rejected:
  assumes "upload_answer ev = Rejected code m"
  shows "upload_to_cloudinary ev path w
           = (Raise (OtherError (CloudinaryError code m)), emit (Upload path upload_options) w)"
  using assms by (simp add: upload_to_cloudinary_def Let_def)

lemma create_avatar_job_refused:
  assumes "put_answer ev = Reply p" "400 \<le> put_status p"
  shows "\<exists>m w1. create_avatar_job cfg ev a voice character style background w
           = (Raise (RuntimeError m), w1)"
  using assms by (simp add: create_avatar_job_def Let_def)

lemma create_avatar_job_sample:
  assumes "put_answer ev = put_answer env_ok" "new_uuid ev = ''job-1''"
  shows "create_avatar_job cfg ev a voice character style background w
           = (Return ''job-1'',
              emit (Put (job_url cfg ''job-1'') (azure_headers cfg)
                      (job_payload a voice character style background)) w)"
  using assms by (simp add: create_avatar_job_def env_ok_def Let_def)

lemma poll_avatar_job_sample:
  assumes "poll_script ev = poll_script env_ok"
  shows "\<exists>w2. poll_avatar_job cfg ev job_id 600 5 w
           = (Some (Return (JStr ''https://video.example/v.mp4'')), w2)"
proof -
  have script: "poll_script ev = [reply_running] @ Reply \<lparr>poll_status = 200,
           poll_json = Some doc_succeeded, poll_took = 1\<rparr> # []"
    using assms by (simp add: env_ok_def reply_succeeded_def)
  let ?r = "\<lparr>poll_status = 200, poll_json = Some doc_succeeded, poll_took = 1\<rparr>"
  have pend: "\<forall>s \<in> set [reply_running]. answers_pending s"
    by (simp add: answers_pending_reply_running)
  have i: "(0::int) \<le> 5" by simp
  have time: "clock w + (\<Sum>s\<leftarrow>[reply_running]. took_of s + real_of_int 5) < clock w + 600"
    by (simp add: reply_running_def)
  have ok: "http_ok (poll_status ?r)" by (simp add: http_ok_def)
  have doc: "poll_json ?r = Some doc_succeeded" by simp
  have x: "poll_response doc_succeeded = Some (Return (JStr ''https://video.example/v.mp4''))"
    by (simp add: doc_succeeded_def poll_response_def dict_get_def)
  from poll_loop_succeeds [OF pend i time ok doc x, where rest = "[]"] script
  show ?thesis
    by (simp add: poll_avatar_job_def Let_def)
qed

lemma download_file_creates:
  assumes "download_file ev url w = (Return path, w3)"
  shows "files w3 path \<noteq> None"
  using assms
  by (auto simp: download_file_def Let_def emit_def
           split: net.splits res.splits option.splits)

lemma download_file_sample:
  assumes "download_answer ev = download_answer env_ok" "tmp_name ev = ''/tmp/tmpx''"
  shows "\<exists>w3. download_file ev url w = (Return ''/tmp/tmpx.mp4'', w3)"
  using assms
  by (simp add: download_file_def env_ok_def raise_for_status_def Let_def)

subsection \<open>C1: a rejected download or upload\<close>

text \<open>
  C1, as the code has it. For an accepted request whose job was submitted and polled to
  a result URL: when the download is answered with an error status (400 to 599),
  \<^verbatim>\<open>raise_for_status\<close> raises \<^verbatim>\<open>HTTPError\<close>, and when the upload is rejected the SDK
  raises \<^verbatim>\<open>cloudinary.exceptions.Error\<close>; neither is a \<^verbatim>\<open>RuntimeError\<close>, both are
  caught by \<^verbatim>\<open>except Exception\<close>, and the response status is 500. A job submission that
  the provider answers with a status of 400 or more gives status 502.
\<close>

theorem download_or_upload_rejected:
  assumes auth: "authenticated cfg req"
    and valid: "validate_input req = Inr (a, voice, character, style, background)"
    and create: "create_avatar_job cfg ev a voice character style background w
                   = (Return job_id, w1)"
    and poll: "poll_avatar_job cfg ev job_id 600 5 w1 = (Some (Return video_url), w2)"
  shows "(\<forall>resp. download_answer ev = Reply resp \<and> 400 \<le> dl_status resp \<and> dl_status resp < 600
            \<longrightarrow> fst (generate_avatar cfg ev req w)
                  = Some (error_response 500
                      [Lit ''Unexpected error: '', FmtExn (HTTPError (dl_status resp))]))
       \<and> (\<forall>path w3 code m. download_file ev video_url w2 = (Return path, w3)
              \<and> upload_answer ev = Rejected code m
            \<longrightarrow> fst (generate_avatar cfg ev req w)
                  = Some (error_response 500
                      [Lit ''Unexpected error: '', FmtExn (CloudinaryError code m)]))
       \<and> (\<forall>ev' p. put_answer ev' = Reply p \<and> 400 \<le> put_status p
            \<longrightarrow> map_option status (fst (generate_avatar cfg ev' req w)) = Some 502)"
proof (intro conjI allI impI)
  fix resp
  assume "download_answer ev = Reply resp \<and> 400 \<le> dl_status resp \<and> dl_status resp < 600"
  then have "download_file ev video_url w2
           = (Raise (OtherError (HTTPError (dl_status resp))), emit (Download video_url) w2)"
    by (simp add: download_file_rejected)
  then show "fst (generate_avatar cfg ev req w)
                  = Some (error_response 500
                      [Lit ''Unexpected error: '', FmtExn (HTTPError (dl_status resp))])"
    by (simp add: generate_avatar_accepted [OF auth valid]
          generate_avatar_try_download [OF create poll])
next
  fix path w3 code m
  assume "download_file ev video_url w2 = (Return path, w3) \<and> upload_answer ev = Rejected code m"
  then have dl: "download_file ev video_url w2 = (Return path, w3)"
    and up: "upload_to_cloudinary ev path w3
           = (Raise (OtherError (CloudinaryError code m)), emit (Upload path upload_options) w3)"
    by (simp_all add: upload_rejected)
  show "fst (generate_avatar cfg ev req w)
                  = Some (error_response 500
                      [Lit ''Unexpected error: '', FmtExn (CloudinaryError code m)])"
    by (simp add: generate_avatar_accepted [OF auth valid]
          generate_avatar_try_download [OF create poll] dl up)
next
  fix ev' :: env and p
  assume "put_answer ev' = Reply p \<and> 400 \<le> put_status p"
  then obtain m w1' where "create_avatar_job cfg ev' a voice character style background w
           = (Raise (RuntimeError m), w1')"
    using create_avatar_job_refused by blast
  then show "map_option status (fst (generate_avatar cfg ev' req w)) = Some 502"
    by (simp add: generate_avatar_accepted [OF auth valid] generate_avatar_try_def
          error_response_def)
qed

theorem download_or_upload_rejected_witness:
  "fst (generate_avatar cfg0 env_download_404 req_ok w0)
     = Some (error_response 500 [Lit ''Unexpected error: '', FmtExn (HTTPError 404)])"
proof -
  let ?w1 = "emit (Put (job_url cfg0 ''job-1'') (azure_headers cfg0)
                      (job_payload ''hello'' (JStr ''th-TH-NiwatNeural'') (JStr ''harry'')
                         (JStr ''casual'') JNull)) w0"
  have create: "create_avatar_job cfg0 env_download_404 ''hello'' (JStr ''th-TH-NiwatNeural'')
      (JStr ''harry'') (JStr ''casual'') JNull w0 = (Return ''job-1'', ?w1)"
    by (rule create_avatar_job_sample) (simp_all add: env_download_404_def env_ok_def)
  obtain w2 where poll: "poll_avatar_job cfg0 env_download_404 ''job-1'' 600 5 ?w1
           = (Some (Return (JStr ''https://video.example/v.mp4'')), w2)"
    using poll_avatar_job_sample [of env_download_404 cfg0 "''job-1''" ?w1]
    by (auto simp: env_download_404_def)
  have dl: "download_answer env_download_404
              = Reply \<lparr>dl_status = 404, dl_chunks = [], dl_broken = None\<rparr>
          \<and> 400 \<le> dl_status \<lparr>dl_status = 404, dl_chunks = [], dl_broken = None\<rparr>
          \<and> dl_status \<lparr>dl_status = 404, dl_chunks = [], dl_broken = None\<rparr> < 600"
    by (simp add: env_download_404_def)
  note th = download_or_upload_rejected [OF authenticated_req_ok validate_input_req_ok
      create poll, THEN conjunct1, THEN spec, THEN mp, OF dl]
  then show ?thesis by simp
qed

text \<open>
  As stated, C1 fails: with a download answered 404, and with an upload rejected by the
  hosting service, the response status is 500, not 502.
\<close>

theorem download_rejected_counterexample:
  "map_option status (fst (generate_avatar cfg0 env_download_404 req_ok w0)) = Some 500
   \<and> map_option status (fst (generate_avatar cfg0 env_upload_rejected req_ok w0)) = Some 500"
  by (simp add: sample_defs model_defs env_download_404_def env_upload_rejected_def)

subsection \<open>C2: the API key and the body\<close>

text \<open>
  C2. The claim holds for a wrong key in the header, and for a missing key when the body
  is a JSON object; the code breaks it when the header is missing and the body is not a
  JSON object: \<^verbatim>\<open>request.json\<close> aborts the request with status 400 for a body that
  does not parse, and \<^verbatim>\<open>.get\<close> on a parsed array raises \<^verbatim>\<open>AttributeError\<close>, which
  Flask answers with status 500. Neither response is the 401 of the handler.
\<close>

theorem missing_key_unreadable_body:
  "generate_avatar cfg0 env_ok req_no_key_malformed w0
     = (Some \<lparr>status = 400, payload = FrameworkError\<rparr>, w0)
   \<and> generate_avatar cfg0 env_ok req_no_key_array w0
     = (Some \<lparr>status = 500, payload = FrameworkError\<rparr>, w0)
   \<and> generate_avatar cfg0 env_ok req_wrong_key w0
     = (Some \<lparr>status = 401, payload = ErrorBody [Lit ''Invalid or missing API key'']\<rparr>, w0)"
  by (simp add: generate_avatar_def request_defs req_no_key_malformed_def req_no_key_array_def
        req_wrong_key_def cfg0_def aborted_def error_response_def)

subsection \<open>C3: the order of the validation checks\<close>




subsection \<open>C4: the polling timeout\<close>



subsection \<open>C5: what a status document decides\<close>




subsection \<open>C6: an unknown voice\<close>




subsection \<open>C7: success on the N-th query\<close>



subsection \<open>C8: job submission\<close>

text \<open>
  C8. When the provider answers the job-creation call with a status code of 400 or more,
  \<open>create_avatar_job\<close> raises, and the text of the error is
  \<^verbatim>\<open>Azure job creation failed [<code>]: <body>\<close>, with the code in decimal and the
  response body unchanged; for every status code below 400 it returns the job id, the
  identifier it generated for the call.
\<close>

theorem create_avatar_job_status:
  assumes "put_answer ev = Reply resp"
  shows "(put_status resp \<ge> 400 \<longrightarrow>
            (\<exists>msg. fst (create_avatar_job cfg ev txt voice character style background w)
                     = Raise (RuntimeError msg)
                 \<and> render msg = Some (''Azure job creation failed ['' @ decimal (put_status resp)
                                        @ '']: '' @ put_text resp)))
       \<and> (put_status resp < 400 \<longrightarrow>
            fst (create_avatar_job cfg ev txt voice character style background w)
              = Return (new_uuid ev))"
  using assms by (simp add: create_avatar_job_def Let_def str_int_def)

theorem create_avatar_job_status_witness:
  "fst (create_avatar_job cfg0
          (env_ok\<lparr>put_answer := Reply \<lparr>put_status = 404, put_text = ''nope''\<rparr>\<rparr>)
          ''hello'' (JStr ''th-TH-NiwatNeural'') (JStr ''harry'') (JStr ''casual'') JNull w0)
     = Raise (RuntimeError
         [Lit ''Azure job creation failed ['', FmtInt 404, Lit '']: '', Lit ''nope''])
   \<and> render [Lit ''Azure job creation failed ['', FmtInt 404, Lit '']: '', Lit ''nope'']
       = Some ''Azure job creation failed [404]: nope''
   \<and> fst (create_avatar_job cfg0 env_ok ''hello'' (JStr ''th-TH-NiwatNeural'')
            (JStr ''harry'') (JStr ''casual'') JNull w0)
       = Return ''job-1''"
  using
    create_avatar_job_status
      [of "env_ok\<lparr>put_answer := Reply \<lparr>put_status = 404, put_text = ''nope''\<rparr>\<rparr>"
          "\<lparr>put_status = 404, put_text = ''nope''\<rparr>" cfg0 "''hello''"
          "JStr ''th-TH-NiwatNeural''" "JStr ''harry''" "JStr ''casual''" JNull w0]
    create_avatar_job_status
      [of env_ok "\<lparr>put_status = 201, put_text = ''{}''\<rparr>" cfg0 "''hello''"
          "JStr ''th-TH-NiwatNeural''" "JStr ''harry''" "JStr ''casual''" JNull w0]
  by (simp add: env_ok_def create_avatar_job_def Let_def str_int_def digit_char_def)

subsection \<open>C9: the temporary file\<close>

text \<open>
  C9. For an accepted request whose download has succeeded and left the temporary file
  \<open>path\<close>: the handler answers; the response is the success response exactly when the
  upload returns a result with a \<^verbatim>\<open>secure_url\<close>; on that path the last call before the
  response is \<^verbatim>\<open>os.unlink(path)\<close> and the file is gone; on every other path (the
  upload is rejected, or fails in another way) the file is still there and no
  \<^verbatim>\<open>unlink\<close> has been called.
\<close>

theorem temp_file_cleanup:
  assumes auth: "authenticated cfg req"
    and valid: "validate_input req = Inr (a, voice, character, style, background)"
    and create: "create_avatar_job cfg ev a voice character style background w
                   = (Return job_id, w1)"
    and poll: "poll_avatar_job cfg ev job_id 600 5 w1 = (Some (Return video_url), w2)"
    and dl: "download_file ev video_url w2 = (Return path, w3)"
  shows "\<exists>resp w'. generate_avatar cfg ev req w = (Some resp, w')
       \<and> (status resp = 200
            \<longleftrightarrow> (\<exists>result u. upload_answer ev = Uploaded result
                            \<and> map_of result ''secure_url'' = Some u))
       \<and> (status resp = 200 \<longrightarrow>
            files w' path = None
            \<and> trace w' = trace w3 @ [(clock w3, Upload path upload_options),
                                      (clock w3, Unlink path)])
       \<and> (status resp \<noteq> 200 \<longrightarrow>
            files w' path = files w3 path \<and> files w3 path \<noteq> None
            \<and> trace w' = trace w3 @ [(clock w3, Upload path upload_options)])"
proof -
  note run = generate_avatar_accepted [OF auth valid]
    generate_avatar_try_download [OF create poll] dl
  have there: "files w3 path \<noteq> None"
    by (rule download_file_creates [OF dl])
  then obtain content where content: "files w3 path = Some content" by blast
  show ?thesis
  proof (cases "upload_answer ev")
    case (Rejected code m)
    then show ?thesis
      using there
      by (simp add: run upload_to_cloudinary_def emit_def error_response_def Let_def)
  next
    case (Uploaded result)
    show ?thesis
    proof (cases "map_of result ''secure_url''")
      case None
      with Uploaded show ?thesis
        using there
        by (simp add: run upload_to_cloudinary_def emit_def error_response_def Let_def)
    next
      case (Some u)
      with Uploaded show ?thesis
        using content
        by (simp add: run upload_to_cloudinary_def unlink_def emit_def Let_def)
    qed
  qed
qed

theorem temp_file_cleanup_witness:
  "(\<exists>resp w'. generate_avatar cfg0 env_ok req_ok w0 = (Some resp, w')
       \<and> status resp = 200 \<and> files w' ''/tmp/tmpx.mp4'' = None)
   \<and> (\<exists>resp w'. generate_avatar cfg0 env_upload_rejected req_ok w0 = (Some resp, w')
       \<and> status resp \<noteq> 200 \<and> files w' ''/tmp/tmpx.mp4'' \<noteq> None)"
proof (intro conjI)
  let ?w1 = "emit (Put (job_url cfg0 ''job-1'') (azure_headers cfg0)
                      (job_payload ''hello'' (JStr ''th-TH-NiwatNeural'') (JStr ''harry'')
                         (JStr ''casual'') JNull)) w0"
  let ?url = "JStr ''https://video.example/v.mp4''"
  { fix ev :: env
    assume same: "put_answer ev = put_answer env_ok" "new_uuid ev = ''job-1''"
      "poll_script ev = poll_script env_ok" "download_answer ev = download_answer env_ok"
      "tmp_name ev = ''/tmp/tmpx''"
    have create: "create_avatar_job cfg0 ev ''hello'' (JStr ''th-TH-NiwatNeural'')
        (JStr ''harry'') (JStr ''casual'') JNull w0 = (Return ''job-1'', ?w1)"
      by (rule create_avatar_job_sample [OF same(1,2)])
    obtain w2 where poll: "poll_avatar_job cfg0 ev ''job-1'' 600 5 ?w1 = (Some (Return ?url), w2)"
      using poll_avatar_job_sample [OF same(3)] by blast
    obtain w3 where dl: "download_file ev ?url w2 = (Return ''/tmp/tmpx.mp4'', w3)"
      using download_file_sample [OF same(4,5)] by blast
    from temp_file_cleanup [OF authenticated_req_ok validate_input_req_ok create poll dl]
    obtain resp w' where r: "generate_avatar cfg0 ev req_ok w0 = (Some resp, w')"
      and s: "status resp = 200
            \<longleftrightarrow> (\<exists>result u. upload_answer ev = Uploaded result
                            \<and> map_of result ''secure_url'' = Some u)"
      and gone: "status resp = 200 \<longrightarrow> files w' ''/tmp/tmpx.mp4'' = None"
      and kept: "status resp \<noteq> 200 \<longrightarrow> files w' ''/tmp/tmpx.mp4'' = files w3 ''/tmp/tmpx.mp4''
            \<and> files w3 ''/tmp/tmpx.mp4'' \<noteq> None"
      by blast
    from kept have kept': "status resp \<noteq> 200 \<longrightarrow> files w' ''/tmp/tmpx.mp4'' \<noteq> None"
      by simp
    from r s gone kept'
    have "\<exists>resp w'. generate_avatar cfg0 ev req_ok w0 = (Some resp, w')
       \<and> (status resp = 200
            \<longleftrightarrow> (\<exists>result u. upload_answer ev = Uploaded result
                            \<and> map_of result ''secure_url'' = Some u))
       \<and> (status resp = 200 \<longrightarrow> files w' ''/tmp/tmpx.mp4'' = None)
       \<and> (status resp \<noteq> 200 \<longrightarrow> files w' ''/tmp/tmpx.mp4'' \<noteq> None)"
      by blast
  }
  note th = this
  have "\<exists>result u. upload_answer env_ok = Uploaded result
                            \<and> map_of result ''secure_url'' = Some u"
    by (simp add: env_ok_def)
  with th [of env_ok]
  show "\<exists>resp w'. generate_avatar cfg0 env_ok req_ok w0 = (Some resp, w')
       \<and> status resp = 200 \<and> files w' ''/tmp/tmpx.mp4'' = None"
    by (simp add: env_ok_def) blast
  have "\<not> (\<exists>result u. upload_answer env_upload_rejected = Uploaded result
                            \<and> map_of result ''secure_url'' = Some u)"
    by (simp add: env_upload_rejected_def)
  with th [of env_upload_rejected]
  show "\<exists>resp w'. generate_avatar cfg0 env_upload_rejected req_ok w0 = (Some resp, w')
       \<and> status resp \<noteq> 200 \<and> files w' ''/tmp/tmpx.mp4'' \<noteq> None"
    by (simp add: env_upload_rejected_def env_ok_def) blast
qed

subsection \<open>C10: the defaults\<close>

text \<open>
  C10, as the code has it. A field that the request omits takes its default
  (\<^verbatim>\<open>th-TH-NiwatNeural\<close>, \<^verbatim>\<open>harry\<close>, \<^verbatim>\<open>casual\<close>), and the three defaults are
  valid together: the default voice is a known voice, the default character is a catalog
  key and the default style is in that character's list. So an authenticated request with
  a non-empty text that omits all three passes validation and is never answered with
  status 400.
\<close>

theorem defaults_pass_validation:
  assumes auth: "authenticated cfg req"
    and data: "request_data req = JObj kvs"
    and body_text: "dict_get kvs ''text'' (JStr []) = JStr t" "strip t \<noteq> []"
  shows "in_strs (JStr ''th-TH-NiwatNeural'') ALL_VOICES
       \<and> lookup_styles (JStr ''harry'') = Some [''business'', ''casual'', ''youthful'']
       \<and> in_strs (JStr ''casual'') [''business'', ''casual'', ''youthful'']
       \<and> (\<forall>a v c s b. validate_input req = Inr (a, v, c, s, b) \<longrightarrow>
             (map_of kvs ''voice'' = None \<longrightarrow> v = JStr ''th-TH-NiwatNeural'')
           \<and> (map_of kvs ''talkingAvatarCharacter'' = None \<longrightarrow> c = JStr ''harry'')
           \<and> (map_of kvs ''talkingAvatarStyle'' = None \<longrightarrow> s = JStr ''casual''))
       \<and> (map_of kvs ''voice'' = None \<and> map_of kvs ''talkingAvatarCharacter'' = None
            \<and> map_of kvs ''talkingAvatarStyle'' = None \<longrightarrow>
             validate_input req
               = Inr (strip t, JStr ''th-TH-NiwatNeural'', JStr ''harry'', JStr ''casual'',
                      dict_get kvs ''background'' JNull)
           \<and> (\<forall>resp. fst (generate_avatar cfg ev req w) = Some resp \<longrightarrow> status resp \<noteq> 400))"
proof (intro conjI allI impI)
  show "in_strs (JStr ''th-TH-NiwatNeural'') ALL_VOICES"
    by (simp add: catalog_defs)
  show "lookup_styles (JStr ''harry'') = Some [''business'', ''casual'', ''youthful'']"
    by (simp add: catalog_defs)
  show "in_strs (JStr ''casual'') [''business'', ''casual'', ''youthful'']"
    by simp
next
  fix a v c s b
  assume r: "validate_input req = Inr (a, v, c, s, b)"
  have vals: "v = dict_get kvs ''voice'' (JStr ''th-TH-NiwatNeural'')
      \<and> c = dict_get kvs ''talkingAvatarCharacter'' (JStr ''harry'')
      \<and> s = dict_get kvs ''talkingAvatarStyle'' (JStr ''casual'')"
    using r data body_text
    by (auto simp: validate_input_def Let_def split: if_splits option.splits)
  { assume "map_of kvs ''voice'' = None"
    then show "v = JStr ''th-TH-NiwatNeural''" using vals by (simp add: dict_get_def) }
  { assume "map_of kvs ''talkingAvatarCharacter'' = None"
    then show "c = JStr ''harry''" using vals by (simp add: dict_get_def) }
  { assume "map_of kvs ''talkingAvatarStyle'' = None"
    then show "s = JStr ''casual''" using vals by (simp add: dict_get_def) }
next
  assume omitted: "map_of kvs ''voice'' = None \<and> map_of kvs ''talkingAvatarCharacter'' = None
            \<and> map_of kvs ''talkingAvatarStyle'' = None"
  have dv: "dict_get kvs ''voice'' (JStr ''th-TH-NiwatNeural'') = JStr ''th-TH-NiwatNeural''"
    and dc: "dict_get kvs ''talkingAvatarCharacter'' (JStr ''harry'') = JStr ''harry''"
    and ds: "dict_get kvs ''talkingAvatarStyle'' (JStr ''casual'') = JStr ''casual''"
    using omitted by (simp_all add: dict_get_def)
  show v: "validate_input req
               = Inr (strip t, JStr ''th-TH-NiwatNeural'', JStr ''harry'', JStr ''casual'',
                      dict_get kvs ''background'' JNull)"
    using data body_text
    by (simp add: validate_input_def Let_def dv dc ds catalog_defs)
  fix resp assume "fst (generate_avatar cfg ev req w) = Some resp"
  from generate_avatar_accepted_status [OF auth v this]
  show "status resp \<noteq> 400" .
qed

theorem defaults_pass_validation_witness:
  "validate_input req_ok
     = Inr (''hello'', JStr ''th-TH-NiwatNeural'', JStr ''harry'', JStr ''casual'', JNull)
   \<and> in_strs (JStr ''th-TH-NiwatNeural'') ALL_VOICES"
proof -
  have d: "request_data req_ok = JObj [(''text'', JStr '' hello '')]"
    by (simp add: request_defs req_ok_def)
  have t: "dict_get [(''text'', JStr '' hello '')] ''text'' (JStr []) = JStr '' hello ''"
    by (simp add: dict_get_def)
  have s: "strip '' hello '' \<noteq> []"
    by (simp add: strip_def isspace_def)
  note th = defaults_pass_validation [OF authenticated_req_ok d t s, of env_ok w0]
  have om: "map_of [(''text'', JStr '' hello '')] ''voice'' = None
      \<and> map_of [(''text'', JStr '' hello '')] ''talkingAvatarCharacter'' = None
      \<and> map_of [(''text'', JStr '' hello '')] ''talkingAvatarStyle'' = None"
    by simp
  note th5 = th [THEN conjunct2, THEN conjunct2, THEN conjunct2, THEN conjunct2]
  have "validate_input req_ok
               = Inr (strip '' hello '', JStr ''th-TH-NiwatNeural'', JStr ''harry'',
                      JStr ''casual'', dict_get [(''text'', JStr '' hello '')] ''background'' JNull)"
    by (rule mp [OF th5 om, THEN conjunct1])
  moreover have "in_strs (JStr ''th-TH-NiwatNeural'') ALL_VOICES"
    by (rule th [THEN conjunct1])
  ultimately show ?thesis
    by (simp add: strip_def isspace_def dict_get_def)
qed

text \<open>
  As stated for a request that omits any of the three fields, C10 fails: a request that
  names the character \<^verbatim>\<open>jeff\<close> and omits the style gets the default style
  \<^verbatim>\<open>casual\<close>, which is not in the list of \<^verbatim>\<open>jeff\<close>, and is answered with 400.
\<close>

theorem default_style_counterexample:
  "map_option status (fst (generate_avatar cfg0 env_ok req_jeff w0)) = Some 400
   \<and> lookup_styles (JStr ''jeff'') = Some [''business'', ''formal'']"
  by (simp add: generate_avatar_def validate_input_def request_defs req_jeff_def
        cfg0_def strip_def isspace_def catalog_defs error_response_def Let_def)

end
